theory Spec2Isabelle
  imports Complex_Main
begin

section \<open>Numeric helpers of the Python runtime\<close>

text \<open>
  Python floats are read as real numbers throughout: rounding error, NaN, infinities and
  signed zeros are not part of this model. Under that reading the library functions the
  navigation code calls are the following.
\<close>

text \<open>\<^verbatim>\<open>math.radians\<close> and \<^verbatim>\<open>math.degrees\<close>.\<close>

definition radians :: "real \<Rightarrow> real" where
  "radians x = x * pi / 180"

definition degrees :: "real \<Rightarrow> real" where
  "degrees x = x * 180 / pi"

text \<open>\<^verbatim>\<open>math.atan2(y, x)\<close>: the angle of the point \<open>(x, y)\<close>, in \<open>(-pi, pi]\<close>.\<close>

definition atan2 :: "real \<Rightarrow> real \<Rightarrow> real" where
  "atan2 y x =
     (if 0 < x then arctan (y / x)
      else if x < 0 then (if 0 \<le> y then arctan (y / x) + pi else arctan (y / x) - pi)
      else if 0 < y then pi / 2
      else if y < 0 then - (pi / 2)
      else 0)"

text \<open>The float operator \<^verbatim>\<open>x % m\<close>: the result has the sign of \<open>m\<close>.\<close>

definition py_fmod :: "real \<Rightarrow> real \<Rightarrow> real" where
  "py_fmod x m = x - m * of_int \<lfloor>x / m\<rfloor>"

text \<open>The builtin \<^verbatim>\<open>round(x)\<close> with one argument: nearest integer, ties to even.\<close>

definition py_round :: "real \<Rightarrow> int" where
  "py_round x =
     (let f = \<lfloor>x\<rfloor>; r = x - of_int f
      in if r < 1 / 2 then f
         else if 1 / 2 < r then f + 1
         else if even f then f else f + 1)"

section \<open>Geometry shared by \<^verbatim>\<open>RobotController\<close> and \<^verbatim>\<open>VoiceNavigator\<close>\<close>

text \<open>A position is the dictionary \<^verbatim>\<open>{"lat": ..., "lng": ...}\<close>.\<close>

record gps =
  lat :: real
  lng :: real

text \<open>
  \<^verbatim>\<open>calculate_distance\<close> (Haversine) and \<^verbatim>\<open>calculate_bearing\<close> have the same body in
  \<^verbatim>\<open>robot_controller.py\<close> and in \<^verbatim>\<open>main.py\<close>.
\<close>

definition calculate_distance :: "real \<Rightarrow> real \<Rightarrow> real \<Rightarrow> real \<Rightarrow> real" where
  "calculate_distance lat1 lng1 lat2 lng2 =
     (let R = 6371000;
          lat1_rad = radians lat1;
          lat2_rad = radians lat2;
          delta_lat = radians (lat2 - lat1);
          delta_lng = radians (lng2 - lng1);
          a = (sin (delta_lat / 2))\<^sup>2 + cos lat1_rad * cos lat2_rad * (sin (delta_lng / 2))\<^sup>2;
          c = 2 * atan2 (sqrt a) (sqrt (1 - a))
      in R * c)"

definition calculate_bearing :: "real \<Rightarrow> real \<Rightarrow> real \<Rightarrow> real \<Rightarrow> real" where
  "calculate_bearing lat1 lng1 lat2 lng2 =
     (let lat1_rad = radians lat1;
          lat2_rad = radians lat2;
          delta_lng = radians (lng2 - lng1);
          y = sin delta_lng * cos lat2_rad;
          x = cos lat1_rad * sin lat2_rad - sin lat1_rad * cos lat2_rad * cos delta_lng;
          bearing = atan2 y x
      in py_fmod (degrees bearing + 360) 360)"

section \<open>\<^verbatim>\<open>robot_controller.py\<close>\<close>

record RobotController =
  rc_current_gps :: gps
  rc_destination :: "gps option"
  is_navigating :: bool
  rc_current_heading :: real
  last_update_time :: real

definition DESTINATION_THRESHOLD :: real where
  "DESTINATION_THRESHOLD = 5"

definition HEADING_TOLERANCE :: real where
  "HEADING_TOLERANCE = 15"

definition UPDATE_INTERVAL :: real where
  "UPDATE_INTERVAL = 2"

definition RobotController_init :: RobotController where
  "RobotController_init =
     \<lparr>rc_current_gps = \<lparr>lat = 0, lng = 0\<rparr>, rc_destination = None, is_navigating = False,
      rc_current_heading = 0, last_update_time = 0\<rparr>"

text \<open>
  What the outside world answers during one pass of the control loop: the clock, the two
  Firebase reads (\<open>None\<close> when the read fails, times out or holds no usable value) and
  whether the Firebase write succeeds.
\<close>

record rc_env =
  env_time :: real
  gps_response :: "gps option"
  heading_response :: "real option"
  put_ok :: bool

definition get_gps_from_firebase :: "rc_env \<Rightarrow> RobotController \<Rightarrow> gps option \<times> RobotController" where
  "get_gps_from_firebase e st =
     (case gps_response e of
        Some g \<Rightarrow> (Some g, st\<lparr>rc_current_gps := g\<rparr>)
      | None \<Rightarrow> (None, st))"

definition get_heading_from_firebase :: "rc_env \<Rightarrow> RobotController \<Rightarrow> real option \<times> RobotController" where
  "get_heading_from_firebase e st =
     (case heading_response e of
        Some h \<Rightarrow> (Some h, st\<lparr>rc_current_heading := h\<rparr>)
      | None \<Rightarrow> (None, st))"

text \<open>
  \<^verbatim>\<open>update_direction_to_firebase\<close>: the command sink is the sequence of directions written
  to \<^verbatim>\<open>navigation_direction\<close>; the write is attempted whatever its outcome.
\<close>

definition update_direction_to_firebase :: "rc_env \<Rightarrow> string \<Rightarrow> string list \<Rightarrow> bool \<times> string list" where
  "update_direction_to_firebase e direction sink = (put_ok e, sink @ [direction])"

text \<open>
  The expression \<^verbatim>\<open>(target_bearing - current_heading + 180) % 360 - 180\<close> of
  \<^verbatim>\<open>calculate_next_direction\<close>.
\<close>

definition angle_diff_of :: "real \<Rightarrow> real \<Rightarrow> real" where
  "angle_diff_of target_bearing current_heading =
     py_fmod (target_bearing - current_heading + 180) 360 - 180"

definition calculate_next_direction :: "rc_env \<Rightarrow> RobotController \<Rightarrow> string option \<times> RobotController" where
  "calculate_next_direction e st =
     (case get_gps_from_firebase e st of (gps, st1) \<Rightarrow>
        (case (gps, rc_destination st1) of
           (Some g, Some dest) \<Rightarrow>
             (let distance = calculate_distance (lat g) (lng g) (lat dest) (lng dest)
              in if distance < DESTINATION_THRESHOLD then (Some ''arrived'', st1)
                 else
                   (let target_bearing = calculate_bearing (lat g) (lng g) (lat dest) (lng dest)
                    in case get_heading_from_firebase e st1 of (h, st2) \<Rightarrow>
                         (let current_heading = (case h of Some v \<Rightarrow> v | None \<Rightarrow> rc_current_heading st2);
                              angle_diff = angle_diff_of target_bearing current_heading
                          in if \<bar>angle_diff\<bar> < HEADING_TOLERANCE then (Some ''forward'', st2)
                             else if 0 < angle_diff then (Some ''right'', st2)
                             else (Some ''left'', st2))))
         | _ \<Rightarrow> (None, st1)))"

text \<open>
  The body of the \<^verbatim>\<open>while self.is_navigating\<close> loop of \<^verbatim>\<open>start_navigation\<close>, for one
  pass whose clock and Firebase answers are \<open>e\<close>. The first component says whether the
  pass leaves the loop through \<^verbatim>\<open>break\<close>. The sleeps are not modelled: time is what the
  clock of the next pass reads.
\<close>

definition loop_body :: "rc_env \<Rightarrow> RobotController \<Rightarrow> string list \<Rightarrow> bool \<times> RobotController \<times> string list" where
  "loop_body e st sink =
     (let current_time = env_time e
      in if current_time - last_update_time st \<ge> UPDATE_INTERVAL then
           (case calculate_next_direction e st of
              (None, st1) \<Rightarrow> (False, st1, sink)
            | (Some direction, st1) \<Rightarrow>
                (case update_direction_to_firebase e direction sink of (_, sink1) \<Rightarrow>
                   if direction = ''arrived'' then (True, st1\<lparr>is_navigating := False\<rparr>, sink1)
                   else (False, st1\<lparr>last_update_time := current_time\<rparr>, sink1)))
         else (False, st, sink))"

text \<open>
  The loop itself, driven by the list of what each pass observes. The Python loop has no
  bound of its own; the model returns \<open>None\<close> when the observations run out while the
  flag is still set, and \<open>Some\<close> of the return value \<^verbatim>\<open>True\<close>, the controller and the sink
  when the loop is left.
\<close>

fun navigation_loop :: "rc_env list \<Rightarrow> RobotController \<Rightarrow> string list \<Rightarrow> (bool \<times> RobotController \<times> string list) option" where
  "navigation_loop [] st sink = (if is_navigating st then None else Some (True, st, sink))"
| "navigation_loop (e # es) st sink =
     (if is_navigating st then
        (case loop_body e st sink of
           (True, st1, sink1) \<Rightarrow> Some (True, st1, sink1)
         | (False, st1, sink1) \<Rightarrow> navigation_loop es st1 sink1)
      else Some (True, st, sink))"

text \<open>
  \<^verbatim>\<open>RobotController.start_navigation\<close>: \<open>e0\<close> answers the initial position read, \<open>es\<close> the
  passes of the loop.
\<close>

definition rc_start_navigation :: "rc_env \<Rightarrow> rc_env list \<Rightarrow> real \<Rightarrow> real \<Rightarrow> RobotController \<Rightarrow> string list \<Rightarrow> (bool \<times> RobotController \<times> string list) option" where
  "rc_start_navigation e0 es dest_lat dest_lng st sink =
     (let st1 = st\<lparr>rc_destination := Some \<lparr>lat = dest_lat, lng = dest_lng\<rparr>, is_navigating := True\<rparr>
      in case get_gps_from_firebase e0 st1 of
           (None, st2) \<Rightarrow> Some (False, st2, sink)
         | (Some g, st2) \<Rightarrow> navigation_loop es st2 sink)"

definition stop_navigation :: "rc_env \<Rightarrow> RobotController \<Rightarrow> string list \<Rightarrow> RobotController \<times> string list" where
  "stop_navigation e st sink =
     (let st1 = st\<lparr>is_navigating := False\<rparr>
      in case update_direction_to_firebase e ''stopped'' sink of (_, sink1) \<Rightarrow> (st1, sink1))"

section \<open>\<^verbatim>\<open>main.py\<close>: strings and the audio queue\<close>

text \<open>\<^verbatim>\<open>str(n)\<close> for a non-negative integer, as the f-strings print \<^verbatim>\<open>len(...)\<close>.\<close>

fun str_nat :: "nat \<Rightarrow> string" where
  "str_nat n =
     (if n < 10 then [''0123456789'' ! n]
      else str_nat (n div 10) @ [''0123456789'' ! (n mod 10)])"

declare str_nat.simps [simp del]

text \<open>
  The format \<^verbatim>\<open>{x:.0f}\<close>: the nearest integer, ties to even, with the sign of \<open>x\<close> kept
  (a small negative number prints as \<^verbatim>\<open>-0\<close>).
\<close>

definition format_0f :: "real \<Rightarrow> string" where
  "format_0f x =
     (let n = py_round x
      in if x < 0 then ''-'' @ str_nat (nat (- n)) else str_nat (nat n))"

text \<open>
  \<^verbatim>\<open>s.replace(old, new)\<close> for a non-empty \<open>old\<close>: the occurrences are replaced from left to
  right without overlap. (Every call in the source passes a non-empty literal; for the
  empty \<open>old\<close>, which Python treats specially, this function leaves \<open>s\<close> as it is.)
\<close>

function py_replace :: "string \<Rightarrow> string \<Rightarrow> string \<Rightarrow> string" where
  "py_replace old new [] = []"
| "py_replace old new (c # cs) =
     (if old \<noteq> [] \<and> take (length old) (c # cs) = old
      then new @ py_replace old new (drop (length old) (c # cs))
      else c # py_replace old new cs)"
  by pat_completeness auto
termination
  by (relation "measure (\<lambda>(old, new, s). length s)") auto

text \<open>The clean-up of HTML tags applied to an instruction before it is spoken.\<close>

definition clean_instruction_of :: "string \<Rightarrow> string" where
  "clean_instruction_of instruction =
     py_replace ''</div>'' '' '' (py_replace ''<div>'' '' ''
       (py_replace ''</b>'' '''' (py_replace ''<b>'' '''' instruction)))"

text \<open>
  \<^verbatim>\<open>queue.Queue\<close> of the standard library, seen from the producers: \<open>maxsize\<close> and the
  pending items. A \<open>maxsize\<close> of zero means no bound. The consumer thread is not part of
  this model, so a \<^verbatim>\<open>put\<close> with a timeout on a full queue ends in \<^verbatim>\<open>queue.Full\<close>.
\<close>

datatype py_error = Full

record py_queue =
  maxsize :: nat
  items :: "string list"

definition Queue :: py_queue where
  "Queue = \<lparr>maxsize = 0, items = []\<rparr>"

definition full :: "py_queue \<Rightarrow> bool" where
  "full q \<longleftrightarrow> 0 < maxsize q \<and> maxsize q \<le> length (items q)"

definition put :: "string \<Rightarrow> py_queue \<Rightarrow> py_error + py_queue" where
  "put item q = (if full q then Inl Full else Inr (q\<lparr>items := items q @ [item]\<rparr>))"

record AudioSystem =
  enabled :: bool
  audio_queue :: py_queue

definition AudioSystem_init :: "bool \<Rightarrow> AudioSystem" where
  "AudioSystem_init en = \<lparr>enabled = en, audio_queue = Queue\<rparr>"

text \<open>\<^verbatim>\<open>AudioSystem.speak\<close>: a failed \<^verbatim>\<open>put\<close> is caught and logged; the method returns nothing.\<close>

definition speak :: "string \<Rightarrow> AudioSystem \<Rightarrow> AudioSystem" where
  "speak message a =
     (if \<not> enabled a \<or> message = [] then a
      else case put message (audio_queue a) of
             Inr q \<Rightarrow> a\<lparr>audio_queue := q\<rparr>
           | Inl e \<Rightarrow> a)"

text \<open>\<^verbatim>\<open>AudioSystem.clear_queue\<close>: \<^verbatim>\<open>get_nowait\<close> until the queue is empty.\<close>

fun drain :: "string list \<Rightarrow> string list" where
  "drain [] = []"
| "drain (x # xs) = drain xs"

definition clear_queue :: "AudioSystem \<Rightarrow> AudioSystem" where
  "clear_queue a = a\<lparr>audio_queue := (audio_queue a)\<lparr>items := drain (items (audio_queue a))\<rparr>\<rparr>"

section \<open>\<^verbatim>\<open>main.py\<close>: \<^verbatim>\<open>VoiceNavigator\<close>\<close>

text \<open>A waypoint is the dictionary with the keys \<^verbatim>\<open>lat\<close>, \<^verbatim>\<open>lng\<close>, \<^verbatim>\<open>instruction\<close> and \<^verbatim>\<open>index\<close>.\<close>

record waypoint = gps +
  instruction :: string
  index :: nat

record VoiceNavigator =
  audio_system :: AudioSystem
  current_gps :: "gps option"
  destination :: "gps option"
  route_instructions :: "string list"
  current_instruction_index :: nat
  navigation_active :: bool
  last_announcement_time :: real
  last_spoken_instruction :: string
  waypoints :: "waypoint list"
  current_waypoint_index :: nat

definition GUIDANCE_DISTANCE_THRESHOLD :: real where
  "GUIDANCE_DISTANCE_THRESHOLD = 20"

definition OFF_ROUTE_THRESHOLD :: real where
  "OFF_ROUTE_THRESHOLD = 50"

definition VoiceNavigator_init :: VoiceNavigator where
  "VoiceNavigator_init =
     \<lparr>audio_system = AudioSystem_init True, current_gps = None, destination = None,
      route_instructions = [], current_instruction_index = 0, navigation_active = False,
      last_announcement_time = 0, last_spoken_instruction = '''', waypoints = [],
      current_waypoint_index = 0\<rparr>"

text \<open>
  What the outside world answers during one call: the clock \<^verbatim>\<open>time.time()\<close>, the reverse
  geocoding behind \<^verbatim>\<open>get_location_name\<close> (which always returns some text) and the draw of
  \<^verbatim>\<open>random.randint(3, 7)\<close>.
\<close>

record vn_env =
  now :: real
  get_location_name :: "real \<Rightarrow> real \<Rightarrow> string"
  randint_3_7 :: nat

definition set_current_location :: "real \<Rightarrow> real \<Rightarrow> VoiceNavigator \<Rightarrow> VoiceNavigator" where
  "set_current_location lat' lng' st = st\<lparr>current_gps := Some \<lparr>lat = lat', lng = lng'\<rparr>\<rparr>"

text \<open>
  \<^verbatim>\<open>VoiceNavigator.set_destination\<close>. The argument \<^verbatim>\<open>route_instructions=None\<close> is the
  empty list (\<^verbatim>\<open>route_instructions or []\<close>).
\<close>

definition set_destination :: "vn_env \<Rightarrow> real \<Rightarrow> real \<Rightarrow> string list \<Rightarrow> VoiceNavigator \<Rightarrow> VoiceNavigator" where
  "set_destination env lat' lng' route_instructions' st =
     (let st1 = st\<lparr>destination := Some \<lparr>lat = lat', lng = lng'\<rparr>,
                    route_instructions := route_instructions',
                    current_instruction_index := 0,
                    current_waypoint_index := 0,
                    navigation_active := True,
                    last_spoken_instruction := ''''\<rparr>;
          wps =
            (if route_instructions' \<noteq> [] then
               map (\<lambda>(i, instruction').
                      let progress = (real i + 1) / real (length route_instructions');
                          waypoint_lat = (case current_gps st1 of
                                            Some cur \<Rightarrow> lat cur + (lat' - lat cur) * progress
                                          | None \<Rightarrow> lat');
                          waypoint_lng = (case current_gps st1 of
                                            Some cur \<Rightarrow> lng cur + (lng' - lng cur) * progress
                                          | None \<Rightarrow> lng')
                      in \<lparr>lat = waypoint_lat, lng = waypoint_lng,
                          instruction = instruction', index = i\<rparr>)
                   (enumerate 0 route_instructions')
             else [\<lparr>lat = lat', lng = lng', instruction = ''Arrive at destination'', index = 0\<rparr>]);
          st2 = st1\<lparr>waypoints := wps\<rparr>;
          destination_name = get_location_name env lat' lng';
          initial_message =
            (case current_gps st2 of
               Some cur \<Rightarrow> ''Live navigation started! I can see you are currently at ''
                            @ get_location_name env (lat cur) (lng cur) @ ''. ''
             | None \<Rightarrow> ''Live navigation started! '')
            @ ''Your destination is '' @ destination_name @ ''. ''
            @ (if route_instructions' \<noteq> [] then
                 ''The journey has '' @ str_nat (length route_instructions')
                 @ '' steps. I will guide you turn by turn. Please start walking and I will provide detailed directions.''
               else ''I will guide you directly to your destination. Please start walking and I will provide turn-by-turn directions based on your GPS location.'')
      in st2\<lparr>audio_system := speak initial_message (audio_system st2)\<rparr>)"

text \<open>\<^verbatim>\<open>VoiceNavigator.bearing_to_direction\<close> of \<^verbatim>\<open>main.py\<close>: sixteen points.\<close>

definition directions :: "string list" where
  "directions =
     [''north'', ''north-northeast'', ''northeast'', ''east-northeast'',
      ''east'', ''east-southeast'', ''southeast'', ''south-southeast'',
      ''south'', ''south-southwest'', ''southwest'', ''west-southwest'',
      ''west'', ''west-northwest'', ''northwest'', ''north-northwest'']"

definition bearing_to_direction :: "real \<Rightarrow> string" where
  "bearing_to_direction bearing =
     (let index = py_round (bearing / 22.5) mod 16 in directions ! nat index)"

text \<open>\<^verbatim>\<open>VoiceNavigator.bearing_to_direction\<close> of \<^verbatim>\<open>home_navigator.py\<close>: eight points.\<close>

definition directions_home :: "string list" where
  "directions_home =
     [''North'', ''North-East'', ''East'', ''South-East'',
      ''South'', ''South-West'', ''West'', ''North-West'']"

definition bearing_to_direction_home :: "real \<Rightarrow> string" where
  "bearing_to_direction_home bearing =
     (let idx = py_round (bearing / 45) mod 8 in directions_home ! nat idx)"

text \<open>The announcements that \<^verbatim>\<open>provide_navigation_guidance\<close> builds with f-strings.\<close>

definition waypoint_guidance :: "string \<Rightarrow> string \<Rightarrow> string" where
  "waypoint_guidance clean_instruction direction =
     ''Next instruction: '' @ clean_instruction @ ''. Head '' @ direction @ ''.''"

definition off_route_msg :: "string \<Rightarrow> string \<Rightarrow> real \<Rightarrow> string" where
  "off_route_msg current_location direction distance_to_waypoint =
     ''You may be off route at '' @ current_location @ ''. Head '' @ direction
     @ '' to get back on track. The waypoint is '' @ format_0f distance_to_waypoint
     @ '' meters away.''"

definition progress_msg :: "string \<Rightarrow> string \<Rightarrow> real \<Rightarrow> string \<Rightarrow> string" where
  "progress_msg current_location direction distance_to_waypoint current_instruction =
     (let location_prefix = ''You are at '' @ current_location @ ''. '';
          guidance_msg =
            (if distance_to_waypoint < 30 then
               location_prefix @ ''Almost at waypoint. Continue '' @ direction @ ''. ''
               @ format_0f distance_to_waypoint @ '' meters ahead.''
             else
               location_prefix @ ''Continue '' @ direction @ ''. Next waypoint is ''
               @ format_0f distance_to_waypoint @ '' meters away.'')
      in if current_instruction \<noteq> [] then
           (let clean_instruction = clean_instruction_of current_instruction
            in if location_prefix \<noteq> [] then
                 clean_instruction @ '' From '' @ current_location @ '', continue '' @ direction
                 @ ''. '' @ format_0f distance_to_waypoint @ '' meters ahead.''
               else
                 clean_instruction @ '' Continue '' @ direction @ ''. ''
                 @ format_0f distance_to_waypoint @ '' meters ahead.'')
         else guidance_msg)"

text \<open>
  \<^verbatim>\<open>VoiceNavigator.provide_navigation_guidance\<close>, one guidance tick. The position is the
  one \<^verbatim>\<open>set_current_location\<close> stored.
\<close>

definition provide_navigation_guidance :: "vn_env \<Rightarrow> VoiceNavigator \<Rightarrow> VoiceNavigator" where
  "provide_navigation_guidance env st =
     (case current_gps st of
        None \<Rightarrow> st
      | Some cur \<Rightarrow>
          if \<not> navigation_active st \<or> waypoints st = [] then st
          else
            (let current_time = now env
             in if current_waypoint_index st \<ge> length (waypoints st) then
                  st\<lparr>audio_system :=
                       speak ''Congratulations! You have reached your destination. Navigation complete.''
                         (clear_queue (audio_system st)),
                     navigation_active := False,
                     waypoints := [],
                     current_waypoint_index := 0,
                     destination := None,
                     route_instructions := []\<rparr>
                else
                  (let current_waypoint = waypoints st ! current_waypoint_index st;
                       distance_to_waypoint =
                         calculate_distance (lat cur) (lng cur) (lat current_waypoint) (lng current_waypoint)
                   in if distance_to_waypoint < GUIDANCE_DISTANCE_THRESHOLD then
                        (let st1 = st\<lparr>current_waypoint_index := current_waypoint_index st + 1\<rparr>
                         in if current_waypoint_index st1 < length (waypoints st1) then
                              (let next_waypoint = waypoints st1 ! current_waypoint_index st1;
                                   instruction' = instruction next_waypoint
                               in if instruction' \<noteq> [] \<and> instruction' \<noteq> last_spoken_instruction st1 then
                                    (let clean_instruction = clean_instruction_of instruction';
                                         bearing = calculate_bearing (lat cur) (lng cur)
                                                     (lat next_waypoint) (lng next_waypoint);
                                         direction = bearing_to_direction bearing;
                                         guidance = waypoint_guidance clean_instruction direction
                                     in st1\<lparr>audio_system := speak guidance (audio_system st1),
                                            last_spoken_instruction := instruction',
                                            last_announcement_time := current_time\<rparr>)
                                  else st1)
                            else
                              st1\<lparr>audio_system :=
                                    speak ''You are approaching your final destination!'' (audio_system st1),
                                  last_announcement_time := current_time\<rparr>)
                      else if distance_to_waypoint > OFF_ROUTE_THRESHOLD then
                        (if current_time - last_announcement_time st > 10 then
                           (let bearing = calculate_bearing (lat cur) (lng cur)
                                            (lat current_waypoint) (lng current_waypoint);
                                direction = bearing_to_direction bearing;
                                current_location = get_location_name env (lat cur) (lng cur);
                                off_route_msg' = off_route_msg current_location direction distance_to_waypoint
                            in st\<lparr>audio_system := speak off_route_msg' (audio_system st),
                                  last_announcement_time := current_time\<rparr>)
                         else st)
                      else
                        (let min_interval =
                               (if distance_to_waypoint < 30 then 5
                                else if distance_to_waypoint < 100 then 8
                                else (15 :: real))
                         in if current_time - last_announcement_time st > min_interval then
                              (let bearing = calculate_bearing (lat cur) (lng cur)
                                               (lat current_waypoint) (lng current_waypoint);
                                   direction = bearing_to_direction bearing;
                                   current_location = get_location_name env (lat cur) (lng cur);
                                   guidance_msg = progress_msg current_location direction
                                                    distance_to_waypoint (instruction current_waypoint)
                               in st\<lparr>audio_system := speak guidance_msg (audio_system st),
                                     last_announcement_time := current_time\<rparr>)
                            else st))))"

section \<open>\<^verbatim>\<open>main.py\<close>: the endpoint \<^verbatim>\<open>/navigation/start\<close>\<close>






section \<open>Properties\<close>

subsection \<open>Numeric facts\<close>



lemma calculate_distance_same: "calculate_distance a b a b = 0"
  by (simp add: calculate_distance_def atan2_def radians_def)

text \<open>From the point (0, 0) to the point (0, 90): a quarter of the equator, due east.\<close>

lemma calculate_distance_quarter: "calculate_distance 0 0 0 90 = 3185500 * pi"
  by (simp add: calculate_distance_def radians_def atan2_def Let_def sin_45 power2_eq_square
      arctan_one)

lemma calculate_distance_quarter_far:
  "\<not> calculate_distance 0 0 0 90 < 5" "\<not> calculate_distance 0 0 0 90 < 20"
  "50 < calculate_distance 0 0 0 90"
  using pi_ge_two by (simp_all add: calculate_distance_quarter)

lemma calculate_bearing_east: "calculate_bearing 0 0 0 90 = 90"
  by (simp add: calculate_bearing_def radians_def degrees_def atan2_def py_fmod_def)

text \<open>
  \<^verbatim>\<open>math.sqrt\<close> raises \<^verbatim>\<open>ValueError\<close> on a negative argument. Over the reals the two
  arguments \<open>a\<close> and \<open>1 - a\<close> that \<^verbatim>\<open>calculate_distance\<close> passes are never negative, for
  any coordinates, so the function has no error branch; its result is never negative.
\<close>

lemma half_angle_identity:
  fixes x y :: real
  shows "(sin ((y - x) / 2))\<^sup>2 + cos x * cos y = (cos ((x + y) / 2))\<^sup>2"
proof -
  have "cos (2 * ((y - x) / 2)) = 1 - 2 * (sin ((y - x) / 2))\<^sup>2"
    by (rule cos_double_sin)
  moreover have "2 * ((y - x) / 2) = y - x" by simp
  ultimately have "cos (y - x) = 1 - 2 * (sin ((y - x) / 2))\<^sup>2" by (simp only:)
  then have s: "(sin ((y - x) / 2))\<^sup>2 = (1 - cos (y - x)) / 2" by argo
  have "cos (2 * ((x + y) / 2)) = 2 * (cos ((x + y) / 2))\<^sup>2 - 1"
    by (rule cos_double_cos)
  moreover have "2 * ((x + y) / 2) = x + y" by simp
  ultimately have "cos (x + y) = 2 * (cos ((x + y) / 2))\<^sup>2 - 1" by (simp only:)
  then have c: "(cos ((x + y) / 2))\<^sup>2 = (1 + cos (x + y)) / 2" by argo
  show ?thesis
    unfolding s c by (simp add: cos_add cos_diff field_simps)
qed

lemma haversine_term_range:
  fixes x y l :: real
  shows "0 \<le> (sin ((y - x) / 2))\<^sup>2 + cos x * cos y * (sin (l / 2))\<^sup>2
       \<and> (sin ((y - x) / 2))\<^sup>2 + cos x * cos y * (sin (l / 2))\<^sup>2 \<le> 1"
proof -
  define s where "s = (sin (l / 2))\<^sup>2"
  define A where "A = (sin ((y - x) / 2))\<^sup>2"
  define B where "B = (cos ((x + y) / 2))\<^sup>2"
  have s: "0 \<le> s" "s \<le> 1" unfolding s_def by (simp_all add: abs_square_le_1)
  have A: "0 \<le> A" "A \<le> 1" unfolding A_def by (simp_all add: abs_square_le_1)
  have B: "0 \<le> B" "B \<le> 1" unfolding B_def by (simp_all add: abs_square_le_1)
  have "A + cos x * cos y = B"
    unfolding A_def B_def by (rule half_angle_identity)
  then have "cos x * cos y = B - A" by simp
  then have e: "A + cos x * cos y * s = (1 - s) * A + s * B"
    by (simp only:) (simp add: algebra_simps)
  have "0 \<le> (1 - s) * A" "0 \<le> s * B" using s A B by simp_all
  moreover have "(1 - s) * A \<le> (1 - s) * 1" using s A by (intro mult_left_mono) simp_all
  moreover have "s * B \<le> s * 1" using s B by (intro mult_left_mono) simp_all
  ultimately have "0 \<le> (1 - s) * A + s * B \<and> (1 - s) * A + s * B \<le> 1" by simp
  then have "0 \<le> A + cos x * cos y * s \<and> A + cos x * cos y * s \<le> 1" by (simp only: e)
  then show ?thesis by (simp only: A_def s_def)
qed

lemma calculate_distance_sqrt_arguments:
  fixes lat1 lng1 lat2 lng2 :: real
  defines "a \<equiv> (sin (radians (lat2 - lat1) / 2))\<^sup>2
                + cos (radians lat1) * cos (radians lat2) * (sin (radians (lng2 - lng1) / 2))\<^sup>2"
  shows "0 \<le> a \<and> 0 \<le> 1 - a"
proof -
  have "radians (lat2 - lat1) = radians lat2 - radians lat1"
    by (simp add: radians_def field_simps)
  then show ?thesis
    unfolding a_def
    using haversine_term_range [of "radians lat2" "radians lat1" "radians (lng2 - lng1)"]
    by simp
qed

lemma calculate_distance_nonneg: "0 \<le> calculate_distance lat1 lng1 lat2 lng2"
proof -
  have "0 \<le> atan2 y x" if "0 \<le> y" "0 \<le> x" for x y :: real
    using that by (auto simp: atan2_def zero_le_arctan_iff)
  then show ?thesis
    using calculate_distance_sqrt_arguments [of lat2 lat1 lng2 lng1]
    by (simp add: calculate_distance_def Let_def)
qed

subsection \<open>Rounding and compass labels\<close>

lemma py_round_of_int: "py_round (of_int k) = k"
  by (simp add: py_round_def)

lemma py_round_near: "\<bar>x - of_int (py_round x)\<bar> \<le> 1 / 2"
  unfolding py_round_def Let_def by (auto; linarith)

lemma py_round_bounds: "0 \<le> x \<Longrightarrow> x < of_int n \<Longrightarrow> 0 \<le> py_round x \<and> py_round x \<le> n"
  unfolding py_round_def Let_def by (auto; linarith)

lemma bearing_to_direction_north: "bearing_to_direction 0 = ''north''"
  using py_round_of_int [of 0] by (simp add: bearing_to_direction_def directions_def)

lemma bearing_to_direction_east: "bearing_to_direction 90 = ''east''"
  using py_round_of_int [of 4] by (simp add: bearing_to_direction_def directions_def)

lemma calculate_bearing_origin: "calculate_bearing 0 0 0 0 = 0"
  by (simp add: calculate_bearing_def radians_def degrees_def atan2_def py_fmod_def)

subsection \<open>Strings and the audio queue\<close>

lemma py_replace_absent: "old \<noteq> [] \<Longrightarrow> hd old \<notin> set s \<Longrightarrow> py_replace old new s = s"
proof (induction s)
  case Nil
  then show ?case by simp
next
  case (Cons c cs)
  from Cons.prems have "take (length old) (c # cs) \<noteq> old"
    by (cases old) auto
  with Cons show ?case by simp
qed

lemma clean_instruction_of_plain: "CHR ''<'' \<notin> set s \<Longrightarrow> clean_instruction_of s = s"
  by (simp add: clean_instruction_of_def py_replace_absent)

lemma speak_unbounded:
  "enabled a \<Longrightarrow> maxsize (audio_queue a) = 0 \<Longrightarrow> message \<noteq> [] \<Longrightarrow>
     speak message a = a\<lparr>audio_queue := (audio_queue a)\<lparr>items := items (audio_queue a) @ [message]\<rparr>\<rparr>"
  by (simp add: speak_def put_def full_def)

lemma speak_empty_message: "speak [] a = a"
  by (simp add: speak_def)

lemma fold_speak:
  "enabled a \<Longrightarrow> maxsize (audio_queue a) = 0 \<Longrightarrow>
     enabled (fold speak ms a) \<and> maxsize (audio_queue (fold speak ms a)) = 0
     \<and> items (audio_queue (fold speak ms a)) = items (audio_queue a) @ filter (\<lambda>m. m \<noteq> []) ms"
proof (induction ms arbitrary: a)
  case Nil
  then show ?case by simp
next
  case (Cons m ms)
  show ?case
  proof (cases "m = []")
    case True
    with Cons show ?thesis by (simp add: speak_empty_message)
  next
    case False
    with Cons.prems
    have "speak m a = a\<lparr>audio_queue := (audio_queue a)\<lparr>items := items (audio_queue a) @ [m]\<rparr>\<rparr>"
      by (simp add: speak_unbounded)
    with Cons.IH [of "speak m a"] Cons.prems False show ?thesis by simp
  qed
qed

text \<open>
  The audio system of a \<^verbatim>\<open>VoiceNavigator\<close> is created enabled and with an unbounded queue,
  and no operation of the navigator changes either setting.
\<close>

lemma speak_keeps_settings:
  "enabled (speak m a) = enabled a" "maxsize (audio_queue (speak m a)) = maxsize (audio_queue a)"
  by (simp_all add: speak_def put_def)

lemma clear_queue_keeps_settings:
  "enabled (clear_queue a) = enabled a" "maxsize (audio_queue (clear_queue a)) = maxsize (audio_queue a)"
  by (simp_all add: clear_queue_def)

lemma audio_settings_invariant:
  "enabled (audio_system VoiceNavigator_init)"
  "maxsize (audio_queue (audio_system VoiceNavigator_init)) = 0"
  "enabled (audio_system (set_current_location la lo st)) = enabled (audio_system st)"
  "maxsize (audio_queue (audio_system (set_current_location la lo st))) = maxsize (audio_queue (audio_system st))"
  "enabled (audio_system (set_destination env la lo ri st)) = enabled (audio_system st)"
  "maxsize (audio_queue (audio_system (set_destination env la lo ri st))) = maxsize (audio_queue (audio_system st))"
  "enabled (audio_system (provide_navigation_guidance env st)) = enabled (audio_system st)"
  "maxsize (audio_queue (audio_system (provide_navigation_guidance env st))) = maxsize (audio_queue (audio_system st))"
  by (simp_all add: VoiceNavigator_init_def AudioSystem_init_def Queue_def set_current_location_def
      set_destination_def provide_navigation_guidance_def Let_def speak_keeps_settings
      clear_queue_keeps_settings split: option.splits)

lemma waypoint_guidance_nonempty: "waypoint_guidance c d \<noteq> []"
  by (simp add: waypoint_guidance_def)

lemma off_route_msg_nonempty: "off_route_msg c d x \<noteq> []"
  by (simp add: off_route_msg_def)

lemma progress_msg_nonempty: "progress_msg l d x i \<noteq> []"
  by (auto simp add: progress_msg_def Let_def)

text \<open>
  A progress announcement is never an off-route announcement: it ends in \<^verbatim>\<open>ahead.\<close> or
  begins with \<^verbatim>\<open>You are\<close>, the off-route one begins with \<^verbatim>\<open>You may\<close> and ends in \<^verbatim>\<open>away.\<close>
\<close>

lemma progress_msg_not_off_route: "progress_msg l d x i \<noteq> off_route_msg l' d' x'"
proof
  assume eq: "progress_msg l d x i = off_route_msg l' d' x'"
  then have r: "rev (progress_msg l d x i) = rev (off_route_msg l' d' x')" by simp
  show False
  proof (cases "i \<noteq> [] \<or> x < 30")
    case True
    with r show False
      by (auto simp: progress_msg_def off_route_msg_def Let_def split: if_splits)
  next
    case False
    with eq show False by (simp add: progress_msg_def off_route_msg_def)
  qed
qed

subsection \<open>The robot's direction decision\<close>


text \<open>
  C1. When a GPS fix and a destination are available, \<^verbatim>\<open>calculate_next_direction\<close> answers
  \<^verbatim>\<open>'arrived'\<close> exactly when the Haversine distance from the fix to the destination is
  strictly below \<open>DESTINATION_THRESHOLD\<close> (5 m); neither the heading read nor the
  remembered heading enters the condition.
\<close>

theorem arrived_iff_within_threshold:
  assumes "gps_response e = Some g" and "rc_destination st = Some dest"
  shows "fst (calculate_next_direction e st) = Some ''arrived''
           \<longleftrightarrow> calculate_distance (lat g) (lng g) (lat dest) (lng dest) < 5"
  using assms
  by (simp add: calculate_next_direction_def get_gps_from_firebase_def
      get_heading_from_firebase_def DESTINATION_THRESHOLD_def Let_def split: option.splits)

theorem arrived_iff_within_threshold_witness:
  "fst (calculate_next_direction
          \<lparr>env_time = 10, gps_response = Some \<lparr>lat = 7, lng = 80\<rparr>, heading_response = Some 123, put_ok = True\<rparr>
          (RobotController_init\<lparr>rc_destination := Some \<lparr>lat = 7, lng = 80\<rparr>\<rparr>)) = Some ''arrived''"
  using arrived_iff_within_threshold
    [where e = "\<lparr>env_time = 10, gps_response = Some \<lparr>lat = 7, lng = 80\<rparr>, heading_response = Some 123, put_ok = True\<rparr>"
       and g = "\<lparr>lat = 7, lng = 80\<rparr>"
       and st = "RobotController_init\<lparr>rc_destination := Some \<lparr>lat = 7, lng = 80\<rparr>\<rparr>"
       and dest = "\<lparr>lat = 7, lng = 80\<rparr>"]
  by (simp add: calculate_distance_same RobotController_init_def)




subsection \<open>The robot's control loop\<close>

text \<open>
  C4 (as the code has it). \<^verbatim>\<open>stop_navigation\<close> clears the flag and writes exactly one command,
  \<^verbatim>\<open>'stopped'\<close>, to the command sink; the loop, when it next tests the flag, returns without
  writing anything further, whatever the later observations are.
\<close>

theorem stop_publishes_stopped_then_loop_exits:
  "(case stop_navigation e st sink of (st1, sink1) \<Rightarrow>
      sink1 = sink @ [''stopped''] \<and> st1 = st\<lparr>is_navigating := False\<rparr>
      \<and> navigation_loop es st1 sink1 = Some (True, st1, sink1))"
  by (cases es) (simp_all add: stop_navigation_def update_direction_to_firebase_def)

theorem stop_publishes_stopped_then_loop_exits_witness:
  "navigation_loop
     [\<lparr>env_time = 12, gps_response = Some \<lparr>lat = 0, lng = 0\<rparr>, heading_response = Some 0, put_ok = True\<rparr>]
     (RobotController_init\<lparr>rc_destination := Some \<lparr>lat = 0, lng = 90\<rparr>\<rparr>) [''forward'', ''stopped'']
   = Some (True, RobotController_init\<lparr>rc_destination := Some \<lparr>lat = 0, lng = 90\<rparr>\<rparr>,
           [''forward'', ''stopped''])"
  using stop_publishes_stopped_then_loop_exits
    [where e = "\<lparr>env_time = 11, gps_response = None, heading_response = None, put_ok = True\<rparr>"
       and st = "RobotController_init\<lparr>rc_destination := Some \<lparr>lat = 0, lng = 90\<rparr>, is_navigating := True\<rparr>"
       and sink = "[''forward'']"
       and es = "[\<lparr>env_time = 12, gps_response = Some \<lparr>lat = 0, lng = 0\<rparr>, heading_response = Some 0, put_ok = True\<rparr>]"]
  by (simp add: stop_navigation_def update_direction_to_firebase_def RobotController_init_def)

text \<open>
  The statement of C4 that stopping sends no command fails: stopping a navigating robot
  with an empty sink leaves \<^verbatim>\<open>'stopped'\<close> in the sink.
\<close>

theorem stop_publishes_counterexample:
  "snd (stop_navigation
          \<lparr>env_time = 11, gps_response = None, heading_response = None, put_ok = True\<rparr>
          (RobotController_init\<lparr>rc_destination := Some \<lparr>lat = 0, lng = 90\<rparr>, is_navigating := True\<rparr>)
          []) = [''stopped'']"
  by (simp add: stop_navigation_def update_direction_to_firebase_def)




subsection \<open>Starting a pedestrian navigation\<close>







subsection \<open>The narration queue\<close>

text \<open>
  C8 (as the code has it). The queue of the audio system is created without a bound and is
  never full: whatever messages are spoken, every non-empty one is appended, in order, and
  none is refused.
\<close>

theorem narration_queue_unbounded:
  "\<not> full (audio_queue (fold speak ms (AudioSystem_init True)))
   \<and> items (audio_queue (fold speak ms (AudioSystem_init True))) = filter (\<lambda>m. m \<noteq> []) ms"
  using fold_speak [of "AudioSystem_init True" ms]
  by (simp add: AudioSystem_init_def Queue_def full_def)

theorem narration_queue_unbounded_witness:
  "items (audio_queue (fold speak [''Turn left'', ''Turn right''] (AudioSystem_init True)))
     = [''Turn left'', ''Turn right'']"
  using narration_queue_unbounded [of "[''Turn left'', ''Turn right'']"] by simp

text \<open>
  The statement of C8 that the queue has a bounded capacity fails: no number bounds the
  pending messages.
\<close>

theorem narration_queue_bounded_counterexample:
  "\<not> (\<exists>cap. \<forall>ms. length (items (audio_queue (fold speak ms (AudioSystem_init True)))) \<le> cap)"
proof
  assume "\<exists>cap. \<forall>ms. length (items (audio_queue (fold speak ms (AudioSystem_init True)))) \<le> cap"
  then obtain cap
    where "\<forall>ms. length (items (audio_queue (fold speak ms (AudioSystem_init True)))) \<le> cap" ..
  then have "length (items (audio_queue
                 (fold speak (replicate (Suc cap) ''x'') (AudioSystem_init True)))) \<le> cap" ..
  moreover have "items (audio_queue (fold speak (replicate (Suc cap) ''x'') (AudioSystem_init True)))
      = replicate (Suc cap) ''x''"
    using fold_speak [of "AudioSystem_init True" "replicate (Suc cap) ''x''"]
    by (simp add: AudioSystem_init_def Queue_def)
  ultimately show False by simp
qed

subsection \<open>Compass labels\<close>

text \<open>
  C9. For a bearing \<open>b\<close> in \<open>[0, 360)\<close> the pedestrian label is entry
  \<open>round(b / 22.5) mod 16\<close> of the sixteen distinct names and the home navigator's label is
  entry \<open>round(b / 45) mod 8\<close> of the eight distinct names; the rounded sector number lies
  between 0 and the sector count (which wraps to north), and its centre is within half a
  sector width of \<open>b\<close>.
\<close>

theorem compass_label_nearest_sector:
  assumes "0 \<le> b" and "b < 360"
  defines "k16 \<equiv> py_round (b / 22.5)" and "k8 \<equiv> py_round (b / 45)"
  shows "bearing_to_direction b = directions ! nat (k16 mod 16)
       \<and> 0 \<le> k16 \<and> k16 \<le> 16 \<and> \<bar>b - 22.5 * of_int k16\<bar> \<le> 11.25
       \<and> nat (k16 mod 16) < length directions \<and> length directions = 16 \<and> distinct directions
       \<and> bearing_to_direction_home b = directions_home ! nat (k8 mod 8)
       \<and> 0 \<le> k8 \<and> k8 \<le> 8 \<and> \<bar>b - 45 * of_int k8\<bar> \<le> 22.5
       \<and> nat (k8 mod 8) < length directions_home \<and> length directions_home = 8
       \<and> distinct directions_home"
proof -
  have d: "distinct directions" "distinct directions_home"
    by (simp_all add: directions_def directions_home_def)
  have l: "length directions = 16" "length directions_home = 8"
    by (simp_all add: directions_def directions_home_def)
  have i: "nat (k16 mod 16) < 16" "nat (k8 mod 8) < 8"
    by (simp_all add: nat_less_iff)
  have r16: "0 \<le> k16 \<and> k16 \<le> 16"
    unfolding k16_def using assms(1,2) by (intro py_round_bounds) simp_all
  have r8: "0 \<le> k8 \<and> k8 \<le> 8"
    unfolding k8_def using assms(1,2) by (intro py_round_bounds) simp_all
  have n16: "\<bar>b - 22.5 * of_int k16\<bar> \<le> 11.25"
    unfolding k16_def using py_round_near [of "b / 22.5"] by (simp add: field_simps abs_le_iff)
  have n8: "\<bar>b - 45 * of_int k8\<bar> \<le> 22.5"
    unfolding k8_def using py_round_near [of "b / 45"] by (simp add: field_simps abs_le_iff)
  show ?thesis
    using d l i r16 r8 n16 n8
    by (simp add: bearing_to_direction_def bearing_to_direction_home_def k16_def k8_def)
qed

theorem compass_label_nearest_sector_witness:
  "bearing_to_direction 90 = ''east'' \<and> bearing_to_direction_home 90 = ''East''"
  using compass_label_nearest_sector [of 90] py_round_of_int [of 4] py_round_of_int [of 2]
  by (simp add: directions_def directions_home_def)

subsection \<open>Guidance ticks\<close>

text \<open>
  C6 (as the code has it). In an active session whose current waypoint is closer than
  \<open>GUIDANCE_DISTANCE_THRESHOLD\<close> (20 m), a tick advances the waypoint index by one and
  leaves the waypoints as they are. If a waypoint remains and its instruction is not
  empty and differs from the last spoken one, exactly one announcement is queued: the
  instruction with its HTML tags removed (the instruction itself when it holds no
  \<^verbatim>\<open><\<close>) and the compass label of the bearing from the position to that waypoint; an
  empty or repeated instruction queues nothing. If no waypoint remains, the
  approaching-destination announcement is queued.
\<close>

theorem waypoint_reached_advances:
  fixes env :: vn_env and st :: VoiceNavigator and cur :: gps
  assumes "navigation_active st" and "current_gps st = Some cur"
    and "current_waypoint_index st < length (waypoints st)"
    and "enabled (audio_system st)" and "maxsize (audio_queue (audio_system st)) = 0"
    and "calculate_distance (lat cur) (lng cur) (lat (waypoints st ! current_waypoint_index st))
              (lng (waypoints st ! current_waypoint_index st)) < 20"
  defines "st' \<equiv> provide_navigation_guidance env st"
  defines "nxt \<equiv> waypoints st ! (current_waypoint_index st + 1)"
  shows "current_waypoint_index st' = current_waypoint_index st + 1
       \<and> waypoints st' = waypoints st
       \<and> (current_waypoint_index st + 1 < length (waypoints st)
            \<and> instruction nxt \<noteq> [] \<and> instruction nxt \<noteq> last_spoken_instruction st \<longrightarrow>
              items (audio_queue (audio_system st')) = items (audio_queue (audio_system st)) @
                [waypoint_guidance (clean_instruction_of (instruction nxt))
                   (bearing_to_direction (calculate_bearing (lat cur) (lng cur) (lat nxt) (lng nxt)))]
              \<and> last_spoken_instruction st' = instruction nxt)
       \<and> (current_waypoint_index st + 1 < length (waypoints st)
            \<and> (instruction nxt = [] \<or> instruction nxt = last_spoken_instruction st) \<longrightarrow>
              items (audio_queue (audio_system st')) = items (audio_queue (audio_system st)))
       \<and> (\<not> current_waypoint_index st + 1 < length (waypoints st) \<longrightarrow>
              items (audio_queue (audio_system st')) = items (audio_queue (audio_system st)) @
                [''You are approaching your final destination!''])
       \<and> (CHR ''<'' \<notin> set (instruction nxt) \<longrightarrow> clean_instruction_of (instruction nxt) = instruction nxt)"
proof -
  have ne: "waypoints st \<noteq> []" using assms(3) by auto
  show ?thesis
    using assms(1-6) ne unfolding st'_def nxt_def
    by (simp add: provide_navigation_guidance_def Let_def GUIDANCE_DISTANCE_THRESHOLD_def
        speak_unbounded waypoint_guidance_nonempty clean_instruction_of_plain)
qed

text \<open>
  Standing on the first waypoint with the second one due east: the tick moves to index 1
  and queues the second instruction with the label \<^verbatim>\<open>east\<close>.
\<close>

theorem waypoint_reached_advances_witness:
  "current_waypoint_index (provide_navigation_guidance
       \<lparr>now = 100, get_location_name = (\<lambda>a b. ''here''), randint_3_7 = 3\<rparr>
       (VoiceNavigator_init\<lparr>current_gps := Some \<lparr>lat = 0, lng = 0\<rparr>, navigation_active := True,
          waypoints := [\<lparr>lat = 0, lng = 0, instruction = ''Head north'', index = 0\<rparr>,
                        \<lparr>lat = 0, lng = 90, instruction = ''Turn left'', index = 1\<rparr>]\<rparr>)) = 1
   \<and> items (audio_queue (audio_system (provide_navigation_guidance
       \<lparr>now = 100, get_location_name = (\<lambda>a b. ''here''), randint_3_7 = 3\<rparr>
       (VoiceNavigator_init\<lparr>current_gps := Some \<lparr>lat = 0, lng = 0\<rparr>, navigation_active := True,
          waypoints := [\<lparr>lat = 0, lng = 0, instruction = ''Head north'', index = 0\<rparr>,
                        \<lparr>lat = 0, lng = 90, instruction = ''Turn left'', index = 1\<rparr>]\<rparr>))))
     = [''Next instruction: Turn left. Head east.'']"
  using waypoint_reached_advances
    [where env = "\<lparr>now = 100, get_location_name = (\<lambda>a b. ''here''), randint_3_7 = 3\<rparr>"
       and cur = "\<lparr>lat = 0, lng = 0\<rparr>"
       and st = "VoiceNavigator_init\<lparr>current_gps := Some \<lparr>lat = 0, lng = 0\<rparr>, navigation_active := True,
          waypoints := [\<lparr>lat = 0, lng = 0, instruction = ''Head north'', index = 0\<rparr>,
                        \<lparr>lat = 0, lng = 90, instruction = ''Turn left'', index = 1\<rparr>]\<rparr>"]
  by (simp add: VoiceNavigator_init_def AudioSystem_init_def Queue_def calculate_distance_same
      calculate_bearing_east bearing_to_direction_east waypoint_guidance_def)

text \<open>
  The statement of C6 fails for an empty instruction. A route of three instructions, the
  last one empty, is started at the destination itself, so that every waypoint is reached
  at once. The first tick speaks \<^verbatim>\<open>Turn left\<close>; the second tick advances to the last
  waypoint, whose instruction differs from the last spoken one, and queues nothing.
\<close>

theorem empty_instruction_silent_counterexample:
  "(let env = \<lparr>now = 100, get_location_name = (\<lambda>a b. ''here''), randint_3_7 = 3\<rparr>;
        st0 = set_destination env 0 0 [''Head north'', ''Turn left'', '''']
                (set_current_location 0 0 VoiceNavigator_init);
        st1 = provide_navigation_guidance env st0;
        st2 = provide_navigation_guidance env st1
    in navigation_active st1 \<and> current_gps st1 = Some \<lparr>lat = 0, lng = 0\<rparr>
       \<and> current_waypoint_index st1 = 1
       \<and> calculate_distance 0 0 (lat (waypoints st1 ! 1)) (lng (waypoints st1 ! 1)) < 20
       \<and> current_waypoint_index st2 = 2 \<and> length (waypoints st2) = 3
       \<and> instruction (waypoints st1 ! 2) \<noteq> last_spoken_instruction st1
       \<and> items (audio_queue (audio_system st2)) = items (audio_queue (audio_system st1)))"
  by (simp add: set_destination_def set_current_location_def VoiceNavigator_init_def
      AudioSystem_init_def Queue_def speak_def put_def full_def Let_def enumerate_eq_zip upt_rec
      provide_navigation_guidance_def calculate_distance_same GUIDANCE_DISTANCE_THRESHOLD_def
      calculate_bearing_origin bearing_to_direction_north waypoint_guidance_def)

text \<open>
  C7. In an active session whose current waypoint is not reached (at least 20 m away), a tick
  queues the off-route announcement exactly when the waypoint is more than
  \<open>OFF_ROUTE_THRESHOLD\<close> (50 m) away and more than 10 seconds have passed since the last
  announcement. Queueing it sets \<open>last_announcement_time\<close> to the clock, and any further
  tick whose clock is at most 10 seconds later changes nothing.
\<close>

theorem off_route_announcement_gated:
  fixes env :: vn_env and st :: VoiceNavigator and cur :: gps
  assumes "navigation_active st" and "current_gps st = Some cur"
    and "current_waypoint_index st < length (waypoints st)"
    and "enabled (audio_system st)" and "maxsize (audio_queue (audio_system st)) = 0"
    and "\<not> calculate_distance (lat cur) (lng cur) (lat (waypoints st ! current_waypoint_index st))
              (lng (waypoints st ! current_waypoint_index st)) < 20"
  defines "dw \<equiv> calculate_distance (lat cur) (lng cur) (lat (waypoints st ! current_waypoint_index st))
              (lng (waypoints st ! current_waypoint_index st))"
  defines "st' \<equiv> provide_navigation_guidance env st"
  shows "(50 < dw \<and> 10 < now env - last_announcement_time st \<longrightarrow>
            items (audio_queue (audio_system st')) = items (audio_queue (audio_system st)) @
               [off_route_msg (get_location_name env (lat cur) (lng cur))
                  (bearing_to_direction (calculate_bearing (lat cur) (lng cur)
                     (lat (waypoints st ! current_waypoint_index st))
                     (lng (waypoints st ! current_waypoint_index st)))) dw]
            \<and> last_announcement_time st' = now env
            \<and> (\<forall>env2. now env2 - now env \<le> 10 \<longrightarrow> provide_navigation_guidance env2 st' = st'))
       \<and> (\<not> (50 < dw \<and> 10 < now env - last_announcement_time st) \<longrightarrow>
            (\<forall>l d x. items (audio_queue (audio_system st')) \<noteq>
                       items (audio_queue (audio_system st)) @ [off_route_msg l d x]))"
proof -
  have ne: "waypoints st \<noteq> []" using assms(3) by auto
  show ?thesis
  proof (cases "50 < dw")
    case True
    show ?thesis
    proof (cases "10 < now env - last_announcement_time st")
      case t: True
      have eq: "st' = st\<lparr>audio_system := speak (off_route_msg (get_location_name env (lat cur) (lng cur))
                  (bearing_to_direction (calculate_bearing (lat cur) (lng cur)
                     (lat (waypoints st ! current_waypoint_index st))
                     (lng (waypoints st ! current_waypoint_index st)))) dw) (audio_system st),
               last_announcement_time := now env\<rparr>"
        using assms(1-3,6) True t ne unfolding st'_def dw_def
        by (simp add: provide_navigation_guidance_def Let_def GUIDANCE_DISTANCE_THRESHOLD_def
            OFF_ROUTE_THRESHOLD_def)
      have again: "provide_navigation_guidance env2 st' = st'" if "now env2 - now env \<le> 10" for env2
        using assms(1-3,6) True that ne unfolding eq dw_def
        by (simp add: provide_navigation_guidance_def Let_def GUIDANCE_DISTANCE_THRESHOLD_def
            OFF_ROUTE_THRESHOLD_def)
      show ?thesis using True t again assms(4,5)
        by (simp add: eq speak_unbounded off_route_msg_nonempty)
    next
      case f: False
      have "st' = st"
        using assms(1-3,6) True f ne unfolding st'_def dw_def
        by (simp add: provide_navigation_guidance_def Let_def GUIDANCE_DISTANCE_THRESHOLD_def
            OFF_ROUTE_THRESHOLD_def)
      then show ?thesis using f by simp
    qed
  next
    case False
    have "st' = st \<or> (\<exists>l d x i. st' = st\<lparr>audio_system := speak (progress_msg l d x i) (audio_system st),
               last_announcement_time := now env\<rparr>)"
      using assms(1-3,6) False ne unfolding st'_def dw_def
      by (auto simp add: provide_navigation_guidance_def Let_def GUIDANCE_DISTANCE_THRESHOLD_def
            OFF_ROUTE_THRESHOLD_def)
    then show ?thesis using False assms(4,5)
      by (auto simp add: speak_unbounded progress_msg_nonempty progress_msg_not_off_route)
  qed
qed

text \<open>
  Far east of the position, no announcement yet: the tick at time 100 queues the off-route
  announcement, and the tick at time 105 changes nothing.
\<close>

theorem off_route_announcement_gated_witness:
  "items (audio_queue (audio_system (provide_navigation_guidance
       \<lparr>now = 100, get_location_name = (\<lambda>a b. ''here''), randint_3_7 = 3\<rparr>
       (VoiceNavigator_init\<lparr>current_gps := Some \<lparr>lat = 0, lng = 0\<rparr>, navigation_active := True,
          waypoints := [\<lparr>lat = 0, lng = 90, instruction = ''Head east'', index = 0\<rparr>]\<rparr>))))
     = [off_route_msg ''here'' ''east'' (calculate_distance 0 0 0 90)]
   \<and> provide_navigation_guidance
       \<lparr>now = 105, get_location_name = (\<lambda>a b. ''here''), randint_3_7 = 3\<rparr>
       (provide_navigation_guidance
         \<lparr>now = 100, get_location_name = (\<lambda>a b. ''here''), randint_3_7 = 3\<rparr>
         (VoiceNavigator_init\<lparr>current_gps := Some \<lparr>lat = 0, lng = 0\<rparr>, navigation_active := True,
            waypoints := [\<lparr>lat = 0, lng = 90, instruction = ''Head east'', index = 0\<rparr>]\<rparr>))
     = provide_navigation_guidance
         \<lparr>now = 100, get_location_name = (\<lambda>a b. ''here''), randint_3_7 = 3\<rparr>
         (VoiceNavigator_init\<lparr>current_gps := Some \<lparr>lat = 0, lng = 0\<rparr>, navigation_active := True,
            waypoints := [\<lparr>lat = 0, lng = 90, instruction = ''Head east'', index = 0\<rparr>]\<rparr>)"
proof -
  have "\<forall>env2. now env2 - 100 \<le> 10 \<longrightarrow>
          provide_navigation_guidance env2
            (provide_navigation_guidance
              \<lparr>now = 100, get_location_name = (\<lambda>a b. ''here''), randint_3_7 = 3\<rparr>
              (VoiceNavigator_init\<lparr>current_gps := Some \<lparr>lat = 0, lng = 0\<rparr>, navigation_active := True,
                 waypoints := [\<lparr>lat = 0, lng = 90, instruction = ''Head east'', index = 0\<rparr>]\<rparr>))
          = provide_navigation_guidance
              \<lparr>now = 100, get_location_name = (\<lambda>a b. ''here''), randint_3_7 = 3\<rparr>
              (VoiceNavigator_init\<lparr>current_gps := Some \<lparr>lat = 0, lng = 0\<rparr>, navigation_active := True,
                 waypoints := [\<lparr>lat = 0, lng = 90, instruction = ''Head east'', index = 0\<rparr>]\<rparr>)"
    and "items (audio_queue (audio_system (provide_navigation_guidance
       \<lparr>now = 100, get_location_name = (\<lambda>a b. ''here''), randint_3_7 = 3\<rparr>
       (VoiceNavigator_init\<lparr>current_gps := Some \<lparr>lat = 0, lng = 0\<rparr>, navigation_active := True,
          waypoints := [\<lparr>lat = 0, lng = 90, instruction = ''Head east'', index = 0\<rparr>]\<rparr>))))
     = [off_route_msg ''here'' ''east'' (calculate_distance 0 0 0 90)]"
    using off_route_announcement_gated
      [where env = "\<lparr>now = 100, get_location_name = (\<lambda>a b. ''here''), randint_3_7 = 3\<rparr>"
         and cur = "\<lparr>lat = 0, lng = 0\<rparr>"
         and st = "VoiceNavigator_init\<lparr>current_gps := Some \<lparr>lat = 0, lng = 0\<rparr>, navigation_active := True,
            waypoints := [\<lparr>lat = 0, lng = 90, instruction = ''Head east'', index = 0\<rparr>]\<rparr>"]
    by (simp_all add: VoiceNavigator_init_def AudioSystem_init_def Queue_def
        calculate_distance_quarter_far calculate_bearing_east bearing_to_direction_east)
  then show ?thesis by simp
qed

end
